theory Spec2Isabelle
  imports Main
begin

section \<open>Platform model: responses, transport, timers, cache\<close>

text \<open>
  The handler of \<^verbatim>\<open>src/unnamed/part_000\<close> (class \<^verbatim>\<open>PoorNetworkHandler\<close>) wraps the
  browser's \<^verbatim>\<open>fetch\<close>.  Its asynchronous code is embedded by explicit state passing over a
  record \<open>world\<close> holding a logical clock in milliseconds (\<^verbatim>\<open>Date.now()\<close>), the pending
  \<^verbatim>\<open>setTimeout\<close> handles, the abort controllers that have fired, the requests handed to
  the native transport, the keys looked up in the Cache API and the cache content.
  What the network does is an input: \<open>transport E n\<close> is the behaviour of the \<open>n\<close>-th call of
  the native fetch if nobody aborts it.
\<close>

record response =
  ok :: bool
  status :: nat
  body :: string

datatype resource = UrlString string | RequestObject string

record fetch_options =
  opt_signal :: "nat option"
  opt_cache :: "string option"

datatype net_outcome = Responds nat response | Rejects nat string | Never

datatype fetch_error = TransportError string | AbortError

type_synonym settled = "fetch_error + response"

record env =
  transport :: "nat \<Rightarrow> net_outcome"
  cacheLatency :: nat
  cacheFails :: bool
  onLine :: bool
  connection :: "string option"

record world =
  clock :: nat
  timers :: "(nat \<times> nat) list"
  nextTimer :: nat
  aborted :: "nat list"
  sent :: "(resource \<times> fetch_options) list"
  lookups :: "string list"
  cache :: "string \<rightharpoonup> response"

text \<open>
  Time passes only while the code awaits.  Every pending timer whose fire time is reached
  runs its callback, which in this program is always \<^verbatim>\<open>controller.abort()\<close> of the controller
  created together with the timer; controller and timer share one handle.
\<close>

definition advance :: "nat \<Rightarrow> world \<Rightarrow> world" where
  "advance dt w =
     (let now = clock w + dt in
      w\<lparr>clock := now,
        timers := filter (\<lambda>(k, a). \<not> a \<le> now) (timers w),
        aborted := aborted w @ map fst (filter (\<lambda>(k, a). a \<le> now) (timers w))\<rparr>)"

text \<open>\<^verbatim>\<open>new AbortController(); setTimeout(() => controller.abort(), delay)\<close>\<close>

definition setTimeoutAbort :: "nat \<Rightarrow> world \<Rightarrow> nat \<times> world" where
  "setTimeoutAbort delay w =
     (nextTimer w,
      w\<lparr>timers := timers w @ [(nextTimer w, clock w + delay)],
        nextTimer := Suc (nextTimer w)\<rparr>)"

definition clearTimeout :: "nat \<Rightarrow> world \<Rightarrow> world" where
  "clearTimeout h w = w\<lparr>timers := filter (\<lambda>(k, a). k \<noteq> h) (timers w)\<rparr>"

fun outcome :: "net_outcome \<Rightarrow> (nat \<times> settled) option" where
  "outcome (Responds t r) = Some (t, Inr r)"
| "outcome (Rejects t e) = Some (t, Inl (TransportError e))"
| "outcome Never = None"

text \<open>
  The instant at which the signal passed in the options aborts the call: now if its controller
  has already aborted, the fire time of its timer if that is pending, never otherwise.
\<close>

definition abortTime :: "fetch_options \<Rightarrow> world \<Rightarrow> nat option" where
  "abortTime options w =
     (case opt_signal options of
        None \<Rightarrow> None
      | Some c \<Rightarrow> if c \<in> set (aborted w) then Some (clock w) else map_of (timers w) c)"

text \<open>
  The native fetch (\<^verbatim>\<open>originalFetch\<close>, captured at line 116).  The result \<open>None\<close> is a promise
  that never settles.  A call whose signal aborts before the transport settles rejects with
  the platform's \<^verbatim>\<open>AbortError\<close> at that instant; a response that arrives strictly before the
  abort wins.
\<close>

definition originalFetch ::
  "env \<Rightarrow> resource \<Rightarrow> fetch_options \<Rightarrow> world \<Rightarrow> settled option \<times> world" where
  "originalFetch E res options w =
     (let w1 = w\<lparr>sent := sent w @ [(res, options)]\<rparr> in
      case (abortTime options w, outcome (transport E (length (sent w)))) of
        (None, None) \<Rightarrow> (None, w1)
      | (None, Some (t, v)) \<Rightarrow> (Some v, advance t w1)
      | (Some a, None) \<Rightarrow> (Some (Inl AbortError), advance (a - clock w) w1)
      | (Some a, Some (t, v)) \<Rightarrow>
          if clock w + t < a then (Some v, advance t w1)
          else (Some (Inl AbortError), advance (a - clock w) w1))"

text \<open>
  \<^verbatim>\<open>getCachedResponse\<close> (lines 184-193): any failure of the Cache API is caught and turned into
  \<^verbatim>\<open>null\<close>, so the function never throws and a failure looks like a miss.
\<close>

definition getCachedResponse :: "env \<Rightarrow> string \<Rightarrow> world \<Rightarrow> response option \<times> world" where
  "getCachedResponse E url w =
     (let w1 = advance (cacheLatency E) (w\<lparr>lookups := lookups w @ [url]\<rparr>) in
      if cacheFails E then (None, w1) else (cache w url, w1))"

section \<open>The handler\<close>

record PoorNetworkHandler =
  isSlowConnection :: bool
  networkTimeouts :: "(string \<times> nat) list"
  maxNetworkTimeout :: nat
  connectionCheckTimeout :: nat
  cacheFirstMode :: bool

definition newHandler :: PoorNetworkHandler where
  "newHandler =
     \<lparr>isSlowConnection = False, networkTimeouts = [], maxNetworkTimeout = 3000,
      connectionCheckTimeout = 1500, cacheFirstMode = False\<rparr>"

subsection \<open>String tests of the interceptor\<close>

definition startsWith :: "string \<Rightarrow> string \<Rightarrow> bool" where
  "startsWith s p = (take (length p) s = p)"

fun js_includes :: "string \<Rightarrow> string \<Rightarrow> bool" where
  "js_includes [] p = (p = [])"
| "js_includes (c # s) p = (startsWith (c # s) p \<or> js_includes s p)"

text \<open>Line 123; in JavaScript \<^verbatim>\<open>&&\<close> binds tighter than \<^verbatim>\<open>||\<close>.\<close>

definition isExternal :: "string \<Rightarrow> bool" where
  "isExternal url =
     (js_includes url ''open-meteo.com'' \<or> (startsWith url ''http'' \<and> \<not> js_includes url ''localhost''))"

fun resourceUrl :: "resource \<Rightarrow> string" where
  "resourceUrl (UrlString s) = s"
| "resourceUrl (RequestObject u) = u"

subsection \<open>The patched fetch (lines 119-181)\<close>

text \<open>
  Lines 142-180: the network attempt under the handler's timer, the cache fallback of the
  \<^verbatim>\<open>catch\<close> block (\<open>cacheFallback\<close>, lines 161-177), and the last-resort call of the
  native fetch with the caller's own options when the response is not \<^verbatim>\<open>ok\<close>.  The timer is cleared only after the awaited fetch has
  returned a response; the \<^verbatim>\<open>catch\<close> block has no access to \<^verbatim>\<open>timeoutId\<close>.
\<close>

definition cacheFallback ::
  "env \<Rightarrow> string \<Rightarrow> fetch_error \<Rightarrow> world \<Rightarrow> settled option \<times> world" where
  "cacheFallback E url error w =
     (case getCachedResponse E url w of
        (Some cachedResponse, w1) \<Rightarrow> (Some (Inr cachedResponse), w1)
      | (None, w1) \<Rightarrow> (Some (Inl error), w1))"

definition networkAttempt ::
  "env \<Rightarrow> PoorNetworkHandler \<Rightarrow> resource \<Rightarrow> fetch_options \<Rightarrow> world \<Rightarrow> settled option \<times> world"
  where
  "networkAttempt E h res options w =
     (case setTimeoutAbort (maxNetworkTimeout h) w of
        (timeoutId, w1) \<Rightarrow>
          (case originalFetch E res (options\<lparr>opt_signal := Some timeoutId\<rparr>) w1 of
             (None, w2) \<Rightarrow> (None, w2)
           | (Some (Inr networkResponse), w2) \<Rightarrow>
               (let w3 = clearTimeout timeoutId w2 in
                if ok networkResponse then (Some (Inr networkResponse), w3)
                else originalFetch E res options w3)
           | (Some (Inl error), w2) \<Rightarrow> cacheFallback E (resourceUrl res) error w2))"

definition smartFetch ::
  "env \<Rightarrow> PoorNetworkHandler \<Rightarrow> resource \<Rightarrow> fetch_options \<Rightarrow> world \<Rightarrow> settled option \<times> world"
  where
  "smartFetch E h res options w =
     (let url = resourceUrl res in
      if isExternal url then originalFetch E res options w
      else
        (case (if cacheFirstMode h \<or> isSlowConnection h then getCachedResponse E url w
               else (None, w)) of
           (Some cachedResponse, w1) \<Rightarrow> (Some (Inr cachedResponse), w1)
         | (None, w1) \<Rightarrow> networkAttempt E h res options w1))"

subsection \<open>Connection quality (lines 57-112)\<close>

definition setSlow :: "PoorNetworkHandler \<Rightarrow> PoorNetworkHandler" where
  "setSlow h = h\<lparr>isSlowConnection := True, cacheFirstMode := True\<rparr>"

definition setGood :: "PoorNetworkHandler \<Rightarrow> PoorNetworkHandler" where
  "setGood h = h\<lparr>isSlowConnection := False, cacheFirstMode := False\<rparr>"

definition slowConnections :: "string list" where
  "slowConnections = [''slow-2g'', ''2g'', ''3g'']"

definition checkConnectionType :: "env \<Rightarrow> PoorNetworkHandler \<Rightarrow> PoorNetworkHandler" where
  "checkConnectionType E h =
     (case connection E of
        None \<Rightarrow> h
      | Some effectiveType \<Rightarrow>
          if effectiveType \<in> set slowConnections then setSlow h else setGood h)"

definition probeOptions :: "nat \<Rightarrow> fetch_options" where
  "probeOptions timeoutId = \<lparr>opt_signal = Some timeoutId, opt_cache = Some ''no-cache''\<rparr>"

text \<open>
  \<^verbatim>\<open>checkConnectionQuality\<close> calls the global \<^verbatim>\<open>fetch\<close>, whatever it is bound to when the call
  is made; that function is the parameter \<open>fetch\<close>.  If the awaited promise never settles the
  continuation never runs and the flags stay as they are.
\<close>

definition checkConnectionQuality ::
  "(resource \<Rightarrow> fetch_options \<Rightarrow> world \<Rightarrow> settled option \<times> world) \<Rightarrow>
   env \<Rightarrow> PoorNetworkHandler \<Rightarrow> world \<Rightarrow> PoorNetworkHandler \<times> world" where
  "checkConnectionQuality fetch E h w =
     (if \<not> onLine E then (setSlow h, w)
      else
        (let startTime = clock w in
         case setTimeoutAbort (connectionCheckTimeout h) w of
           (timeoutId, w1) \<Rightarrow>
             (case fetch (UrlString ''./manifest.json'') (probeOptions timeoutId) w1 of
                (None, w2) \<Rightarrow> (h, w2)
              | (Some (Inr resp), w2) \<Rightarrow>
                  (let w3 = clearTimeout timeoutId w2;
                       responseTime = clock w3 - startTime in
                   if ok resp \<and> responseTime < 1000 then (setGood h, w3) else (setSlow h, w3))
              | (Some (Inl error), w2) \<Rightarrow> (setSlow h, w2))))"

text \<open>
  The global \<^verbatim>\<open>fetch\<close>: the native one until \<^verbatim>\<open>setupSmartFetch\<close> has run (the first check
  of \<^verbatim>\<open>init\<close>, line 21, precedes it), the patched one afterwards (the checks started by the
  30-second interval and by the \<^verbatim>\<open>online\<close> event).
\<close>

definition windowFetch ::
  "bool \<Rightarrow> env \<Rightarrow> PoorNetworkHandler \<Rightarrow> resource \<Rightarrow> fetch_options \<Rightarrow> world \<Rightarrow>
   settled option \<times> world" where
  "windowFetch patched E h = (if patched then smartFetch E h else originalFetch E)"

subsection \<open>Events and public methods\<close>

definition enableCacheFirstMode :: "PoorNetworkHandler \<Rightarrow> PoorNetworkHandler" where
  "enableCacheFirstMode h = h\<lparr>cacheFirstMode := True, isSlowConnection := True\<rparr>"

definition disableCacheFirstMode :: "PoorNetworkHandler \<Rightarrow> PoorNetworkHandler" where
  "disableCacheFirstMode h = h\<lparr>cacheFirstMode := False, isSlowConnection := False\<rparr>"

record network_status =
  ns_isSlowConnection :: bool
  ns_cacheFirstMode :: bool
  ns_isOnline :: bool

definition getNetworkStatus :: "env \<Rightarrow> PoorNetworkHandler \<Rightarrow> network_status" where
  "getNetworkStatus E h =
     \<lparr>ns_isSlowConnection = isSlowConnection h, ns_cacheFirstMode = cacheFirstMode h,
      ns_isOnline = onLine E\<rparr>"

text \<open>
  The state when the constructor returns.  \<^verbatim>\<open>init\<close> starts the first quality check (line 21):
  offline, that check writes the flags before \<^verbatim>\<open>init\<close> goes on; online, it is still awaiting
  its probe, sent through the native fetch, when the constructor returns, and its settlement is
  the event \<open>InitialProbeSettles\<close>.  Then the connection type is read once if the platform has
  \<^verbatim>\<open>navigator.connection\<close> (line 53).
\<close>

definition construct :: "env \<Rightarrow> PoorNetworkHandler" where
  "construct E = checkConnectionType E (if onLine E then newHandler else setSlow newHandler)"

datatype handler_event =
  InitialProbeSettles | OnlineEvent | OfflineEvent | ConnectionChange | QualityTick
  | EnableCacheFirst | DisableCacheFirst

text \<open>
  One step per event, with the platform and world in which the event is handled; a quality
  check is one step, taken when its probe settles.  The checks started by the \<^verbatim>\<open>online\<close>
  event and by the 30-second interval run after \<^verbatim>\<open>setupSmartFetch\<close>, so their probe goes
  through the patched fetch.
\<close>

fun handleEvent :: "env \<times> world \<times> handler_event \<Rightarrow> PoorNetworkHandler \<Rightarrow> PoorNetworkHandler" where
  "handleEvent (E, w, InitialProbeSettles) h =
     fst (checkConnectionQuality (windowFetch False E h) E h w)"
| "handleEvent (E, w, OnlineEvent) h =
     fst (checkConnectionQuality (windowFetch True E (setGood h)) E (setGood h) w)"
| "handleEvent (E, w, OfflineEvent) h = setSlow h"
| "handleEvent (E, w, ConnectionChange) h = checkConnectionType E h"
| "handleEvent (E, w, QualityTick) h =
     fst (checkConnectionQuality (windowFetch True E h) E h w)"
| "handleEvent (E, w, EnableCacheFirst) h = enableCacheFirstMode h"
| "handleEvent (E, w, DisableCacheFirst) h = disableCacheFirstMode h"

fun runEvents :: "(env \<times> world \<times> handler_event) list \<Rightarrow> PoorNetworkHandler \<Rightarrow> PoorNetworkHandler"
  where
  "runEvents [] h = h"
| "runEvents (e # es) h = runEvents es (handleEvent e h)"

section \<open>The status indicator (\<^verbatim>\<open>src/js/weather_offline.js\<close>, class NetworkStatusIndicator)\<close>















section \<open>Well-formed worlds and concrete scenarios\<close>

text \<open>
  Timer handles are handed out in increasing order, so in every world the program can reach
  the handles in use lie below the next one.
\<close>

definition fresh_handles :: "world \<Rightarrow> bool" where
  "fresh_handles w =
     (list_all (\<lambda>(k, a). k < nextTimer w) (timers w) \<and> list_all (\<lambda>k. k < nextTimer w) (aborted w))"

text \<open>
  The world in which the network attempt waits: its timer is pending and the request, with
  the handler's own signal in place of the caller's, has been handed to the transport.
\<close>

definition armed :: "nat \<Rightarrow> resource \<Rightarrow> fetch_options \<Rightarrow> world \<Rightarrow> world" where
  "armed D res options w =
     w\<lparr>timers := timers w @ [(nextTimer w, clock w + D)], nextTimer := Suc (nextTimer w),
       sent := sent w @ [(res, options\<lparr>opt_signal := Some (nextTimer w)\<rparr>)]\<rparr>"

text \<open>What the transport does with a call, seen against a deadline \<open>D\<close> counted from its issue.\<close>

fun settlesBefore :: "nat \<Rightarrow> net_outcome \<Rightarrow> bool" where
  "settlesBefore D (Responds t r) = (t < D)"
| "settlesBefore D (Rejects t e) = (t < D)"
| "settlesBefore D Never = False"

fun respondsBefore :: "nat \<Rightarrow> net_outcome \<Rightarrow> bool" where
  "respondsBefore D (Responds t r) = (t < D)"
| "respondsBefore D (Rejects t e) = False"
| "respondsBefore D Never = False"

fun notOkBefore :: "nat \<Rightarrow> net_outcome \<Rightarrow> bool" where
  "notOkBefore D (Responds t r) = (t < D \<and> \<not> ok r)"
| "notOkBefore D (Rejects t e) = False"
| "notOkBefore D Never = False"

definition emptyWorld :: world where
  "emptyWorld =
     \<lparr>clock = 0, timers = [], nextTimer = 0, aborted = [], sent = [], lookups = [],
      cache = Map.empty\<rparr>"

definition okResponse :: response where
  "okResponse = \<lparr>ok = True, status = 200, body = ''fresh''\<rparr>"

definition staleResponse :: response where
  "staleResponse = \<lparr>ok = True, status = 200, body = ''stale''\<rparr>"

definition notFound :: response where
  "notFound = \<lparr>ok = False, status = 404, body = []\<rparr>"

definition noOptions :: fetch_options where
  "noOptions = \<lparr>opt_signal = None, opt_cache = None\<rparr>"

text \<open>
  A platform that is online, whose cache lookups take 5 ms, and whose transport answers its
  calls as scripted, in order, and never answers a call beyond the script.
\<close>

definition scripted :: "net_outcome list \<Rightarrow> env" where
  "scripted outs =
     \<lparr>transport = (\<lambda>n. if n < length outs then outs ! n else Never),
      cacheLatency = 5, cacheFails = False, onLine = True, connection = None\<rparr>"

definition withCache :: "string \<Rightarrow> response \<Rightarrow> world \<Rightarrow> world" where
  "withCache url r w = w\<lparr>cache := (cache w)(url \<mapsto> r)\<rparr>"

definition slowHandler :: PoorNetworkHandler where
  "slowHandler = setSlow newHandler"

text \<open>
  A caller that made its own abort controller (handle 0), has already aborted it, and passes
  its signal in the options.
\<close>

definition callerSignal :: fetch_options where
  "callerSignal = \<lparr>opt_signal = Some 0, opt_cache = None\<rparr>"

definition callerAborted :: world where
  "callerAborted = emptyWorld\<lparr>nextTimer := 1, aborted := [0]\<rparr>"

section \<open>Effects of the primitives\<close>

lemma advance_fields [simp]:
  "clock (advance t w) = clock w + t"
  "sent (advance t w) = sent w"
  "lookups (advance t w) = lookups w"
  "cache (advance t w) = cache w"
  "nextTimer (advance t w) = nextTimer w"
  by (simp_all add: advance_def Let_def)

lemma clearTimeout_fields [simp]:
  "clock (clearTimeout k w) = clock w"
  "sent (clearTimeout k w) = sent w"
  "lookups (clearTimeout k w) = lookups w"
  "cache (clearTimeout k w) = cache w"
  "nextTimer (clearTimeout k w) = nextTimer w"
  "aborted (clearTimeout k w) = aborted w"
  by (simp_all add: clearTimeout_def)

lemma clearTimeout_not_pending: "k \<notin> fst ` set (timers (clearTimeout k w))"
  by (auto simp: clearTimeout_def)

lemma setTimeoutAbort_fields [simp]:
  "fst (setTimeoutAbort D w) = nextTimer w"
  "clock (snd (setTimeoutAbort D w)) = clock w"
  "sent (snd (setTimeoutAbort D w)) = sent w"
  "lookups (snd (setTimeoutAbort D w)) = lookups w"
  "cache (snd (setTimeoutAbort D w)) = cache w"
  "nextTimer (snd (setTimeoutAbort D w)) = Suc (nextTimer w)"
  "aborted (snd (setTimeoutAbort D w)) = aborted w"
  by (simp_all add: setTimeoutAbort_def)

lemma originalFetch_fields [simp]:
  "sent (snd (originalFetch E res options w)) = sent w @ [(res, options)]"
  "lookups (snd (originalFetch E res options w)) = lookups w"
  "cache (snd (originalFetch E res options w)) = cache w"
  "nextTimer (snd (originalFetch E res options w)) = nextTimer w"
  by (simp_all add: originalFetch_def Let_def split: option.split prod.split)

lemma getCachedResponse_fst:
  "fst (getCachedResponse E url w) = (if cacheFails E then None else cache w url)"
  by (simp add: getCachedResponse_def Let_def)

lemma getCachedResponse_snd:
  "snd (getCachedResponse E url w) = advance (cacheLatency E) (w\<lparr>lookups := lookups w @ [url]\<rparr>)"
  by (simp add: getCachedResponse_def Let_def)

lemma getCachedResponse_fields [simp]:
  "clock (snd (getCachedResponse E url w)) = clock w + cacheLatency E"
  "sent (snd (getCachedResponse E url w)) = sent w"
  "lookups (snd (getCachedResponse E url w)) = lookups w @ [url]"
  "cache (snd (getCachedResponse E url w)) = cache w"
  "nextTimer (snd (getCachedResponse E url w)) = nextTimer w"
  by (simp_all add: getCachedResponse_snd)

lemma cacheFallback_fst:
  "fst (cacheFallback E url e w) =
     (case fst (getCachedResponse E url w) of None \<Rightarrow> Some (Inl e) | Some c \<Rightarrow> Some (Inr c))"
  by (simp add: cacheFallback_def split: prod.split option.split)

lemma cacheFallback_snd: "snd (cacheFallback E url e w) = snd (getCachedResponse E url w)"
  by (simp add: cacheFallback_def split: prod.split option.split)

lemma fresh_advance: "fresh_handles w \<Longrightarrow> fresh_handles (advance t w)"
  by (auto simp: fresh_handles_def advance_def Let_def list_all_iff)

lemma fresh_getCachedResponse:
  "fresh_handles w \<Longrightarrow> fresh_handles (snd (getCachedResponse E url w))"
proof -
  assume "fresh_handles w"
  then have "fresh_handles (w\<lparr>lookups := lookups w @ [url]\<rparr>)"
    by (simp add: fresh_handles_def)
  then show ?thesis
    by (simp add: getCachedResponse_snd fresh_advance)
qed

lemma map_of_fresh:
  "list_all (\<lambda>(k, a). k < n) xs \<Longrightarrow> map_of (xs @ [(n::nat, d)]) n = Some d"
  by (induction xs) (auto split: if_splits)

lemma abortTime_armed:
  assumes "fresh_handles w"
  shows "abortTime (options\<lparr>opt_signal := Some (nextTimer w)\<rparr>) (snd (setTimeoutAbort D w))
         = Some (clock w + D)"
proof -
  from assms have "nextTimer w \<notin> set (aborted w)"
    by (auto simp: fresh_handles_def list_all_iff)
  moreover from assms
  have "map_of (timers w @ [(nextTimer w, clock w + D)]) (nextTimer w) = Some (clock w + D)"
    by (simp add: fresh_handles_def map_of_fresh del: map_of_append)
  ultimately show ?thesis
    by (simp add: abortTime_def setTimeoutAbort_def del: map_of_append)
qed

text \<open>
  Under its own timer the first network call always settles: with the transport's answer if
  that comes strictly before the deadline, with \<open>AbortError\<close> at the deadline otherwise.
\<close>

lemma timed_fetch:
  assumes "fresh_handles w"
  shows "originalFetch E res (options\<lparr>opt_signal := Some (nextTimer w)\<rparr>) (snd (setTimeoutAbort D w))
     = (case outcome (transport E (length (sent w))) of
          None \<Rightarrow> (Some (Inl AbortError), advance D (armed D res options w))
        | Some (t, v) \<Rightarrow>
            if t < D then (Some v, advance t (armed D res options w))
            else (Some (Inl AbortError), advance D (armed D res options w)))"
proof -
  have a: "(snd (setTimeoutAbort D w))\<lparr>sent := sent w @ [(res, options\<lparr>opt_signal := Some (nextTimer w)\<rparr>)]\<rparr>
      = armed D res options w"
    by (simp add: setTimeoutAbort_def armed_def)
  show ?thesis
    unfolding originalFetch_def abortTime_armed [OF assms, of options D] setTimeoutAbort_fields Let_def a
    by (simp split: option.split)
qed

lemma networkAttempt_eq:
  assumes "fresh_handles w"
  shows "networkAttempt E h res options w
     = (let D = maxNetworkTimeout h; w1 = armed D res options w in
        case outcome (transport E (length (sent w))) of
          None \<Rightarrow> cacheFallback E (resourceUrl res) AbortError (advance D w1)
        | Some (t, v) \<Rightarrow>
            if t < D then
              (case v of
                 Inl e \<Rightarrow> cacheFallback E (resourceUrl res) e (advance t w1)
               | Inr r \<Rightarrow>
                   if ok r then (Some (Inr r), clearTimeout (nextTimer w) (advance t w1))
                   else originalFetch E res options (clearTimeout (nextTimer w) (advance t w1)))
            else cacheFallback E (resourceUrl res) AbortError (advance D w1))"
proof -
  have s: "setTimeoutAbort (maxNetworkTimeout h) w
      = (nextTimer w, snd (setTimeoutAbort (maxNetworkTimeout h) w))"
    by (simp add: setTimeoutAbort_def)
  show ?thesis
    unfolding networkAttempt_def
    by (subst s) (simp add: timed_fetch [OF assms] Let_def split: option.split sum.split)
qed

lemma armed_fields [simp]:
  "clock (armed D res options w) = clock w"
  "sent (armed D res options w) = sent w @ [(res, options\<lparr>opt_signal := Some (nextTimer w)\<rparr>)]"
  "lookups (armed D res options w) = lookups w"
  "cache (armed D res options w) = cache w"
  "nextTimer (armed D res options w) = Suc (nextTimer w)"
  "timers (armed D res options w) = timers w @ [(nextTimer w, clock w + D)]"
  "aborted (armed D res options w) = aborted w"
  by (simp_all add: armed_def)

section \<open>Shape of a resolution\<close>

lemma smartFetch_external:
  "isExternal (resourceUrl res) \<Longrightarrow> smartFetch E h res options w = originalFetch E res options w"
  by (simp add: smartFetch_def)

lemma smartFetch_network_first:
  "\<not> isExternal (resourceUrl res) \<Longrightarrow> \<not> (cacheFirstMode h \<or> isSlowConnection h) \<Longrightarrow>
   smartFetch E h res options w = networkAttempt E h res options w"
  by (simp add: smartFetch_def)

lemma smartFetch_cache_first:
  "\<not> isExternal (resourceUrl res) \<Longrightarrow> cacheFirstMode h \<or> isSlowConnection h \<Longrightarrow>
   smartFetch E h res options w =
     (case fst (getCachedResponse E (resourceUrl res) w) of
        Some c \<Rightarrow> (Some (Inr c), snd (getCachedResponse E (resourceUrl res) w))
      | None \<Rightarrow> networkAttempt E h res options (snd (getCachedResponse E (resourceUrl res) w)))"
  by (auto simp: smartFetch_def Let_def split: prod.split option.split)

text \<open>
  The world in which the network stage starts when the first cache lookup, if any, has missed.
\<close>

lemma smartFetch_after_miss:
  assumes "\<not> isExternal (resourceUrl res)"
    and "cacheFirstMode h \<or> isSlowConnection h \<longrightarrow> fst (getCachedResponse E (resourceUrl res) w) = None"
  shows "smartFetch E h res options w
     = networkAttempt E h res options
         (if cacheFirstMode h \<or> isSlowConnection h then snd (getCachedResponse E (resourceUrl res) w)
          else w)"
proof (cases "cacheFirstMode h \<or> isSlowConnection h")
  case True
  with assms show ?thesis by (simp add: smartFetch_cache_first)
next
  case False
  with assms show ?thesis by (simp add: smartFetch_network_first)
qed

lemma cache_networkAttempt: "cache (snd (networkAttempt E h res options w)) = cache w"
  by (simp add: networkAttempt_def cacheFallback_snd Let_def split_beta split: option.split sum.split)

lemma cache_smartFetch: "cache (snd (smartFetch E h res options w)) = cache w"
  by (simp add: smartFetch_def cache_networkAttempt Let_def split_beta split: option.split)

lemma nextTimer_networkAttempt:
  "nextTimer (snd (networkAttempt E h res options w)) = Suc (nextTimer w)"
  by (simp add: networkAttempt_def cacheFallback_snd Let_def split_beta split: option.split sum.split)

lemma sent_networkAttempt:
  "\<exists>more. sent (snd (networkAttempt E h res options w))
     = sent w @ (res, options\<lparr>opt_signal := Some (nextTimer w)\<rparr>) # more"
  by (simp add: networkAttempt_def cacheFallback_snd Let_def split_beta split: option.split sum.split)

lemma fresh_emptyWorld: "fresh_handles emptyWorld"
  by (simp add: fresh_handles_def emptyWorld_def)

lemma fresh_withCache: "fresh_handles (withCache url r w) = fresh_handles w"
  by (simp add: fresh_handles_def withCache_def)

lemma networkAttempt_ok:
  assumes "fresh_handles w" "transport E (length (sent w)) = Responds t r" "t < maxNetworkTimeout h" "ok r"
  shows "networkAttempt E h res options w
     = (Some (Inr r), clearTimeout (nextTimer w) (advance t (armed (maxNetworkTimeout h) res options w)))"
  using assms by (simp add: networkAttempt_eq Let_def)

lemma networkAttempt_not_ok:
  assumes "fresh_handles w" "transport E (length (sent w)) = Responds t r" "t < maxNetworkTimeout h" "\<not> ok r"
  shows "networkAttempt E h res options w
     = originalFetch E res options
         (clearTimeout (nextTimer w) (advance t (armed (maxNetworkTimeout h) res options w)))"
  using assms by (simp add: networkAttempt_eq Let_def)

lemma networkAttempt_rejects:
  assumes "fresh_handles w" "transport E (length (sent w)) = Rejects t e" "t < maxNetworkTimeout h"
  shows "networkAttempt E h res options w
     = cacheFallback E (resourceUrl res) (TransportError e)
         (advance t (armed (maxNetworkTimeout h) res options w))"
  using assms by (simp add: networkAttempt_eq Let_def)

lemma networkAttempt_deadline:
  assumes "fresh_handles w" "\<not> settlesBefore (maxNetworkTimeout h) (transport E (length (sent w)))"
  shows "networkAttempt E h res options w
     = cacheFallback E (resourceUrl res) AbortError
         (advance (maxNetworkTimeout h) (armed (maxNetworkTimeout h) res options w))"
  using assms by (cases "transport E (length (sent w))") (simp_all add: networkAttempt_eq Let_def)

section \<open>Fresh handles are an invariant\<close>

lemma fresh_sent_update: "fresh_handles (w\<lparr>sent := xs\<rparr>) = fresh_handles w"
  by (simp add: fresh_handles_def)

lemma fresh_setTimeoutAbort: "fresh_handles w \<Longrightarrow> fresh_handles (snd (setTimeoutAbort D w))"
  by (auto simp: fresh_handles_def setTimeoutAbort_def list_all_iff less_Suc_eq)

lemma fresh_clearTimeout: "fresh_handles w \<Longrightarrow> fresh_handles (clearTimeout k w)"
  by (auto simp: fresh_handles_def clearTimeout_def list_all_iff)

lemma fresh_originalFetch:
  "fresh_handles w \<Longrightarrow> fresh_handles (snd (originalFetch E res options w))"
  by (simp add: originalFetch_def Let_def fresh_advance fresh_sent_update
      split: option.split prod.split)

lemma fresh_cacheFallback:
  "fresh_handles w \<Longrightarrow> fresh_handles (snd (cacheFallback E url e w))"
  by (simp add: cacheFallback_snd fresh_getCachedResponse)

lemma fresh_networkAttempt:
  "fresh_handles w \<Longrightarrow> fresh_handles (snd (networkAttempt E h res options w))"
  by (simp add: networkAttempt_def Let_def split_beta fresh_setTimeoutAbort fresh_originalFetch
      fresh_clearTimeout fresh_cacheFallback split: option.split sum.split)

lemma fresh_smartFetch:
  "fresh_handles w \<Longrightarrow> fresh_handles (snd (smartFetch E h res options w))"
  by (simp add: smartFetch_def Let_def split_beta fresh_originalFetch fresh_networkAttempt
      fresh_getCachedResponse split: option.split)

lemma fresh_windowFetch:
  "fresh_handles w \<Longrightarrow> fresh_handles (snd (windowFetch patched E h res options w))"
  by (simp add: windowFetch_def fresh_smartFetch fresh_originalFetch)

lemma fresh_checkConnectionQuality:
  "fresh_handles w \<Longrightarrow>
   fresh_handles (snd (checkConnectionQuality (windowFetch patched E h') E h w))"
  by (simp add: checkConnectionQuality_def Let_def split_beta fresh_setTimeoutAbort
      fresh_windowFetch fresh_clearTimeout split: option.split sum.split)

text \<open>On the success path the timer is cleared: its handle is no longer pending.\<close>

lemma timer_cleared_on_success:
  assumes "fresh_handles w" "transport E (length (sent w)) = Responds t r"
    "t < maxNetworkTimeout h" "ok r"
  shows "nextTimer w \<notin> fst ` set (timers (snd (networkAttempt E h res options w)))"
  by (simp only: networkAttempt_ok [OF assms] snd_conv clearTimeout_not_pending not_False_eq_True)

section \<open>Claims about the patched fetch\<close>

text \<open>
  Claim C1 as stated fails: the handler never writes to the cache.  With an empty cache, a
  handler in network-first mode and a transport that answers \<open>/data.json\<close> with an ok response
  after 200 ms, the call returns that response and the cache lookup that follows misses.
\<close>

theorem network_success_is_not_stored:
  "fst (smartFetch (scripted [Responds 200 okResponse]) newHandler (UrlString ''/data.json'')
          noOptions emptyWorld) = Some (Inr okResponse)
   \<and> fst (getCachedResponse (scripted [Responds 200 okResponse]) ''/data.json''
          (snd (smartFetch (scripted [Responds 200 okResponse]) newHandler
                  (UrlString ''/data.json'') noOptions emptyWorld))) = None"
  by code_simp

text \<open>
  Claim C1, amended.  For a request the interceptor handles, whose first cache lookup (made
  only in cache-first mode) misses and whose network attempt answers with an ok response
  strictly before the deadline, the call returns that response; the cache is the one it was
  before the call, so a lookup that follows returns what it would have returned before.
\<close>

theorem network_success_returned_cache_unchanged:
  assumes "\<not> isExternal (resourceUrl res)"
    and "fresh_handles w"
    and "cacheFirstMode h \<or> isSlowConnection h \<longrightarrow> fst (getCachedResponse E (resourceUrl res) w) = None"
    and "transport E (length (sent w)) = Responds t r"
    and "t < maxNetworkTimeout h"
    and "ok r"
  shows "fst (smartFetch E h res options w) = Some (Inr r)
     \<and> cache (snd (smartFetch E h res options w)) = cache w
     \<and> fst (getCachedResponse E key (snd (smartFetch E h res options w)))
         = fst (getCachedResponse E key w)"
proof -
  let ?w1 = "if cacheFirstMode h \<or> isSlowConnection h
             then snd (getCachedResponse E (resourceUrl res) w) else w"
  have f: "fresh_handles ?w1"
    using assms(2) by (simp add: fresh_getCachedResponse)
  have o: "transport E (length (sent ?w1)) = Responds t r"
    using assms(4) by simp
  have "smartFetch E h res options w = networkAttempt E h res options ?w1"
    using assms(1,3) by (rule smartFetch_after_miss)
  then have "fst (smartFetch E h res options w) = Some (Inr r)"
    by (simp only: networkAttempt_ok [OF f o assms(5,6)] fst_conv)
  then show ?thesis
    by (simp add: getCachedResponse_fst cache_smartFetch)
qed

theorem network_success_returned_cache_unchanged_witness:
  "fst (smartFetch (scripted [Responds 500 okResponse]) slowHandler (UrlString ''/data.json'')
          noOptions emptyWorld) = Some (Inr okResponse)
   \<and> cache (snd (smartFetch (scripted [Responds 500 okResponse]) slowHandler
          (UrlString ''/data.json'') noOptions emptyWorld)) = cache emptyWorld"
proof -
  have "\<not> isExternal (resourceUrl (UrlString ''/data.json''))"
    by (simp add: isExternal_def startsWith_def)
  moreover have "cacheFirstMode slowHandler \<or> isSlowConnection slowHandler \<longrightarrow>
      fst (getCachedResponse (scripted [Responds 500 okResponse])
             (resourceUrl (UrlString ''/data.json'')) emptyWorld) = None"
    by (simp add: getCachedResponse_fst emptyWorld_def)
  moreover have "transport (scripted [Responds 500 okResponse]) (length (sent emptyWorld))
      = Responds 500 okResponse"
    by (simp add: scripted_def emptyWorld_def)
  moreover have "500 < maxNetworkTimeout slowHandler" "ok okResponse"
    by (simp_all add: slowHandler_def setSlow_def newHandler_def okResponse_def)
  ultimately show ?thesis
    using network_success_returned_cache_unchanged
      [of "UrlString ''/data.json''" emptyWorld slowHandler "scripted [Responds 500 okResponse]"
          500 okResponse noOptions "''/data.json''"] fresh_emptyWorld
    by simp
qed

text \<open>
  Claim C2 as stated fails: when the network answers with a response that is not ok, the
  \<^verbatim>\<open>try\<close> block ends without a return and without an exception, the \<^verbatim>\<open>catch\<close> block with its
  cache fallback is skipped, and line 180 calls the native fetch a second time and returns
  what that call gives.  Here the transport answers 404 to the first call and 200 to the
  second: two requests reach it, the cache is never consulted, and the caller gets the second
  answer.
\<close>

theorem not_ok_response_fetches_twice:
  "length (sent (snd (smartFetch (scripted [Responds 100 notFound, Responds 50 okResponse])
                        newHandler (UrlString ''/data.json'') noOptions emptyWorld))) = 2
   \<and> lookups (snd (smartFetch (scripted [Responds 100 notFound, Responds 50 okResponse])
                        newHandler (UrlString ''/data.json'') noOptions emptyWorld)) = []
   \<and> fst (smartFetch (scripted [Responds 100 notFound, Responds 50 okResponse])
                        newHandler (UrlString ''/data.json'') noOptions emptyWorld)
       = Some (Inr okResponse)"
  by code_simp

lemma originalFetch_no_signal:
  "opt_signal options = None \<Longrightarrow>
   fst (originalFetch E res options w) = map_option snd (outcome (transport E (length (sent w))))"
  by (simp add: originalFetch_def abortTime_def Let_def split: option.split prod.split)

text \<open>
  Claim C2, amended.  For a request the interceptor handles whose first cache lookup (made
  only in cache-first mode) misses: the network is attempted once under the handler's own
  signal; if that attempt rejects or is aborted at the deadline, the cache is consulted
  exactly once more, no further request is sent, and the caller gets the cached response or
  else the error of the attempt; if it answers ok, nothing else happens and the caller gets
  that response; if it answers with a response that is not ok, the cache is not consulted
  again, exactly one more request, with the caller's own options, is sent, and the caller
  gets the outcome of that second call (when the caller passed no signal: whatever the
  transport does with its next call).  So a call sends one or two requests and makes at most
  one lookup after the network attempt.
\<close>

theorem hops_after_first_miss:
  assumes "\<not> isExternal (resourceUrl res)"
    and "fresh_handles w"
    and "cacheFirstMode h \<or> isSlowConnection h \<longrightarrow> fst (getCachedResponse E (resourceUrl res) w) = None"
  shows "sent (snd (smartFetch E h res options w))
       = sent w @ (res, options\<lparr>opt_signal := Some (nextTimer w)\<rparr>)
           # (if notOkBefore (maxNetworkTimeout h) (transport E (length (sent w)))
              then [(res, options)] else [])
     \<and> lookups (snd (smartFetch E h res options w))
       = lookups w
           @ (if cacheFirstMode h \<or> isSlowConnection h then [resourceUrl res] else [])
           @ (if respondsBefore (maxNetworkTimeout h) (transport E (length (sent w)))
              then [] else [resourceUrl res])
     \<and> fst (smartFetch E h res options w)
       = (case transport E (length (sent w)) of
            Responds t r \<Rightarrow>
              if t < maxNetworkTimeout h then
                if ok r then Some (Inr r)
                else fst (originalFetch E res options
                       (clearTimeout (nextTimer w)
                          (advance t
                             (armed (maxNetworkTimeout h) res options
                                (if cacheFirstMode h \<or> isSlowConnection h
                                 then snd (getCachedResponse E (resourceUrl res) w) else w)))))
              else Some (case fst (getCachedResponse E (resourceUrl res) w) of
                           None \<Rightarrow> Inl AbortError | Some c \<Rightarrow> Inr c)
          | Rejects t e \<Rightarrow>
              Some (case fst (getCachedResponse E (resourceUrl res) w) of
                      None \<Rightarrow> Inl (if t < maxNetworkTimeout h then TransportError e else AbortError)
                    | Some c \<Rightarrow> Inr c)
          | Never \<Rightarrow>
              Some (case fst (getCachedResponse E (resourceUrl res) w) of
                      None \<Rightarrow> Inl AbortError | Some c \<Rightarrow> Inr c))
     \<and> (opt_signal options = None
          \<and> notOkBefore (maxNetworkTimeout h) (transport E (length (sent w))) \<longrightarrow>
        fst (smartFetch E h res options w)
          = map_option snd (outcome (transport E (Suc (length (sent w))))))"
proof -
  let ?w1 = "if cacheFirstMode h \<or> isSlowConnection h
             then snd (getCachedResponse E (resourceUrl res) w) else w"
  let ?D = "maxNetworkTimeout h"
  let ?out = "transport E (length (sent w))"
  have f: "fresh_handles ?w1"
    using assms(2) by (simp add: fresh_getCachedResponse)
  have s: "sent ?w1 = sent w" "nextTimer ?w1 = nextTimer w"
    "lookups ?w1 = lookups w @ (if cacheFirstMode h \<or> isSlowConnection h then [resourceUrl res] else [])"
    by simp_all
  have eq: "smartFetch E h res options w = networkAttempt E h res options ?w1"
    using assms(1,3) by (rule smartFetch_after_miss)
  have fb: "fst (cacheFallback E (resourceUrl res) err (advance d (armed ?D res options ?w1)))
      = Some (case fst (getCachedResponse E (resourceUrl res) w) of
                None \<Rightarrow> Inl err | Some c \<Rightarrow> Inr c)" for err d
    by (simp add: cacheFallback_fst getCachedResponse_fst split: option.split)
  have hops: "sent (snd (networkAttempt E h res options ?w1))
       = sent ?w1 @ (res, options\<lparr>opt_signal := Some (nextTimer ?w1)\<rparr>)
           # (if notOkBefore ?D (transport E (length (sent ?w1))) then [(res, options)] else [])
     \<and> lookups (snd (networkAttempt E h res options ?w1))
       = lookups ?w1
           @ (if respondsBefore ?D (transport E (length (sent ?w1))) then [] else [resourceUrl res])"
    by (cases "transport E (length (sent ?w1))")
      (simp_all add: networkAttempt_eq [OF f] Let_def cacheFallback_snd)
  have na: "networkAttempt E h res options ?w1
     = (case outcome ?out of
          None \<Rightarrow> cacheFallback E (resourceUrl res) AbortError (advance ?D (armed ?D res options ?w1))
        | Some (t, v) \<Rightarrow>
            if t < ?D then
              (case v of
                 Inl e \<Rightarrow> cacheFallback E (resourceUrl res) e (advance t (armed ?D res options ?w1))
               | Inr r \<Rightarrow>
                   if ok r
                   then (Some (Inr r), clearTimeout (nextTimer w) (advance t (armed ?D res options ?w1)))
                   else originalFetch E res options
                          (clearTimeout (nextTimer w) (advance t (armed ?D res options ?w1))))
            else cacheFallback E (resourceUrl res) AbortError (advance ?D (armed ?D res options ?w1)))"
    using networkAttempt_eq [OF f, of E h res options] by (simp only: s Let_def)
  have result: "fst (smartFetch E h res options w)
       = (case ?out of
            Responds t r \<Rightarrow>
              if t < ?D then
                if ok r then Some (Inr r)
                else fst (originalFetch E res options
                       (clearTimeout (nextTimer w) (advance t (armed ?D res options ?w1))))
              else Some (case fst (getCachedResponse E (resourceUrl res) w) of
                           None \<Rightarrow> Inl AbortError | Some c \<Rightarrow> Inr c)
          | Rejects t e \<Rightarrow>
              Some (case fst (getCachedResponse E (resourceUrl res) w) of
                      None \<Rightarrow> Inl (if t < ?D then TransportError e else AbortError)
                    | Some c \<Rightarrow> Inr c)
          | Never \<Rightarrow>
              Some (case fst (getCachedResponse E (resourceUrl res) w) of
                      None \<Rightarrow> Inl AbortError | Some c \<Rightarrow> Inr c))"
    unfolding eq na
    by (cases ?out) (simp_all add: fb split: option.split)
  have last: "fst (smartFetch E h res options w)
          = map_option snd (outcome (transport E (Suc (length (sent w)))))"
    if "opt_signal options = None \<and> notOkBefore ?D ?out"
  proof -
    from that obtain t r where o: "?out = Responds t r" "t < ?D" "\<not> ok r"
      by (cases ?out) auto
    have "fst (smartFetch E h res options w)
        = fst (originalFetch E res options
                 (clearTimeout (nextTimer w) (advance t (armed ?D res options ?w1))))"
      unfolding result using o by simp
    also have "\<dots> = map_option snd (outcome (transport E (Suc (length (sent w)))))"
      using that by (simp add: originalFetch_no_signal)
    finally show ?thesis .
  qed
  from hops result last show ?thesis
    unfolding eq s by simp
qed

theorem hops_after_first_miss_witness:
  "sent (snd (smartFetch (scripted [Rejects 100 ''Failed to fetch'']) slowHandler
                (UrlString ''/data.json'') noOptions emptyWorld))
     = [(UrlString ''/data.json'', noOptions\<lparr>opt_signal := Some 0\<rparr>)]
   \<and> lookups (snd (smartFetch (scripted [Rejects 100 ''Failed to fetch'']) slowHandler
                (UrlString ''/data.json'') noOptions emptyWorld))
     = [''/data.json'', ''/data.json'']
   \<and> fst (smartFetch (scripted [Rejects 100 ''Failed to fetch'']) slowHandler
                (UrlString ''/data.json'') noOptions emptyWorld)
     = Some (Inl (TransportError ''Failed to fetch''))
   \<and> sent (snd (smartFetch (scripted [Responds 100 notFound, Responds 50 okResponse]) newHandler
                (UrlString ''/data.json'') noOptions emptyWorld))
     = [(UrlString ''/data.json'', noOptions\<lparr>opt_signal := Some 0\<rparr>),
        (UrlString ''/data.json'', noOptions)]
   \<and> fst (smartFetch (scripted [Responds 100 notFound, Responds 50 okResponse]) newHandler
                (UrlString ''/data.json'') noOptions emptyWorld)
     = Some (Inr okResponse)"
proof -
  have e: "\<not> isExternal (resourceUrl (UrlString ''/data.json''))"
    by (simp add: isExternal_def startsWith_def)
  have m: "cacheFirstMode h \<or> isSlowConnection h \<longrightarrow>
      fst (getCachedResponse E (resourceUrl (UrlString ''/data.json'')) emptyWorld) = None" for E h
    by (simp add: getCachedResponse_fst emptyWorld_def)
  note rejected = hops_after_first_miss
        [where res = "UrlString ''/data.json''" and w = emptyWorld and h = slowHandler
           and E = "scripted [Rejects 100 ''Failed to fetch'']" and options = noOptions,
         OF e fresh_emptyWorld m]
  note not_ok = hops_after_first_miss
        [where res = "UrlString ''/data.json''" and w = emptyWorld and h = newHandler
           and E = "scripted [Responds 100 notFound, Responds 50 okResponse]"
           and options = noOptions,
         OF e fresh_emptyWorld m]
  have w0: "nextTimer emptyWorld = 0" "sent emptyWorld = []" "lookups emptyWorld = []"
    by (simp_all add: emptyWorld_def)
  have r: "transport (scripted [Rejects 100 ''Failed to fetch'']) (length (sent emptyWorld))
      = Rejects 100 ''Failed to fetch''"
    "cacheFirstMode slowHandler" "maxNetworkTimeout slowHandler = 3000"
    "fst (getCachedResponse (scripted [Rejects 100 ''Failed to fetch''])
      (resourceUrl (UrlString ''/data.json'')) emptyWorld) = None"
    by (simp_all add: scripted_def slowHandler_def setSlow_def newHandler_def emptyWorld_def
        getCachedResponse_fst)
  have n: "transport (scripted [Responds 100 notFound, Responds 50 okResponse])
      (length (sent emptyWorld)) = Responds 100 notFound"
    "outcome (transport (scripted [Responds 100 notFound, Responds 50 okResponse])
      (Suc (length (sent emptyWorld)))) = Some (50, Inr okResponse)"
    "maxNetworkTimeout newHandler = 3000" "\<not> ok notFound" "opt_signal noOptions = None"
    by (simp_all add: scripted_def emptyWorld_def newHandler_def notFound_def noOptions_def)
  have "sent (snd (smartFetch (scripted [Rejects 100 ''Failed to fetch'']) slowHandler
                (UrlString ''/data.json'') noOptions emptyWorld))
     = [(UrlString ''/data.json'', noOptions\<lparr>opt_signal := Some 0\<rparr>)]"
    using rejected [THEN conjunct1] w0 r by simp
  moreover have "lookups (snd (smartFetch (scripted [Rejects 100 ''Failed to fetch'']) slowHandler
                (UrlString ''/data.json'') noOptions emptyWorld))
     = [''/data.json'', ''/data.json'']"
    using rejected [THEN conjunct2, THEN conjunct1] w0 r by simp
  moreover have "fst (smartFetch (scripted [Rejects 100 ''Failed to fetch'']) slowHandler
                (UrlString ''/data.json'') noOptions emptyWorld)
     = Some (Inl (TransportError ''Failed to fetch''))"
    using rejected [THEN conjunct2, THEN conjunct2, THEN conjunct1] r by simp
  moreover have "sent (snd (smartFetch (scripted [Responds 100 notFound, Responds 50 okResponse])
                newHandler (UrlString ''/data.json'') noOptions emptyWorld))
     = [(UrlString ''/data.json'', noOptions\<lparr>opt_signal := Some 0\<rparr>),
        (UrlString ''/data.json'', noOptions)]"
    using not_ok [THEN conjunct1] w0 n by simp
  moreover have "fst (smartFetch (scripted [Responds 100 notFound, Responds 50 okResponse])
                newHandler (UrlString ''/data.json'') noOptions emptyWorld)
     = Some (Inr okResponse)"
    using not_ok [THEN conjunct2, THEN conjunct2, THEN conjunct2] n by simp
  ultimately show ?thesis by blast
qed

text \<open>
  Claim C3 does not hold of the code: \<^verbatim>\<open>clearTimeout(timeoutId)\<close> stands only after the
  awaited fetch, inside the \<^verbatim>\<open>try\<close> block, so a fetch that rejects before its deadline jumps
  to the \<^verbatim>\<open>catch\<close> block with the timer still pending.  With a transport error after 100 ms
  and an empty cache the resolution rejects at 105 ms and leaves timer 0 pending until
  3000 ms; the quality probe, on the native fetch, ends at 100 ms and leaves its timer pending
  until 1500 ms.
\<close>

theorem timer_left_pending_after_transport_error:
  "fst (smartFetch (scripted [Rejects 100 ''Failed to fetch'']) newHandler
          (UrlString ''/data.json'') noOptions emptyWorld)
     = Some (Inl (TransportError ''Failed to fetch''))
   \<and> clock (snd (smartFetch (scripted [Rejects 100 ''Failed to fetch'']) newHandler
          (UrlString ''/data.json'') noOptions emptyWorld)) = 105
   \<and> timers (snd (smartFetch (scripted [Rejects 100 ''Failed to fetch'']) newHandler
          (UrlString ''/data.json'') noOptions emptyWorld)) = [(0, 3000)]
   \<and> fst (checkConnectionQuality (originalFetch (scripted [Rejects 100 ''Failed to fetch'']))
          (scripted [Rejects 100 ''Failed to fetch'']) newHandler emptyWorld) = setSlow newHandler
   \<and> clock (snd (checkConnectionQuality (originalFetch (scripted [Rejects 100 ''Failed to fetch'']))
          (scripted [Rejects 100 ''Failed to fetch'']) newHandler emptyWorld)) = 100
   \<and> timers (snd (checkConnectionQuality (originalFetch (scripted [Rejects 100 ''Failed to fetch'']))
          (scripted [Rejects 100 ''Failed to fetch'']) newHandler emptyWorld)) = [(0, 1500)]"
  by code_simp

lemma advance_fires:
  "(k, a) \<in> set (timers w) \<Longrightarrow> a \<le> clock w + t \<Longrightarrow> k \<in> set (aborted (advance t w))"
  by (force simp: advance_def Let_def)

lemma advance_keeps_aborted: "k \<in> set (aborted w) \<Longrightarrow> k \<in> set (aborted (advance t w))"
  by (simp add: advance_def Let_def)

lemma getCachedResponse_keeps_aborted:
  "k \<in> set (aborted w) \<Longrightarrow> k \<in> set (aborted (snd (getCachedResponse E url w)))"
  by (simp add: getCachedResponse_snd advance_def Let_def)

lemma cacheFallback_settles: "fst (cacheFallback E url e w) \<noteq> None"
  by (simp add: cacheFallback_fst split: option.split)

text \<open>
  Claim C4 as stated fails in its last clause: the last-resort call of line 180 runs without
  signal and without timer.  When the first attempt answers 404 after 100 ms and the
  transport never answers the second call, the promise returned to the caller never settles.
\<close>

theorem last_resort_fetch_can_hang:
  "fst (smartFetch (scripted [Responds 100 notFound]) newHandler (UrlString ''/data.json'')
          noOptions emptyWorld) = None"
  by code_simp

text \<open>
  Claim C4, amended.  For a request the interceptor handles whose first cache lookup (made
  only in cache-first mode) misses: if the transport has not settled the network attempt
  strictly before \<open>maxNetworkTimeout\<close> after its issue, the attempt's controller is aborted, the
  caller gets the cached response or else the abort error, and it gets it exactly one cache
  lookup after the deadline, whatever the transport does later.  A call can fail to settle
  only when the first attempt answered, before the deadline, with a response that is not ok.
\<close>

theorem deadline_unblocks_caller:
  assumes "\<not> isExternal (resourceUrl res)"
    and "fresh_handles w"
    and "cacheFirstMode h \<or> isSlowConnection h \<longrightarrow> fst (getCachedResponse E (resourceUrl res) w) = None"
  shows "(\<not> settlesBefore (maxNetworkTimeout h) (transport E (length (sent w))) \<longrightarrow>
            fst (smartFetch E h res options w)
              = Some (case fst (getCachedResponse E (resourceUrl res) w) of
                        None \<Rightarrow> Inl AbortError | Some c \<Rightarrow> Inr c)
          \<and> clock (snd (smartFetch E h res options w))
              = clock w + (if cacheFirstMode h \<or> isSlowConnection h then cacheLatency E else 0)
                  + maxNetworkTimeout h + cacheLatency E
          \<and> nextTimer w \<in> set (aborted (snd (smartFetch E h res options w)))
          \<and> sent (snd (smartFetch E h res options w))
              = sent w @ [(res, options\<lparr>opt_signal := Some (nextTimer w)\<rparr>)])
     \<and> (fst (smartFetch E h res options w) = None \<longrightarrow>
            notOkBefore (maxNetworkTimeout h) (transport E (length (sent w))))"
proof -
  let ?w1 = "if cacheFirstMode h \<or> isSlowConnection h
             then snd (getCachedResponse E (resourceUrl res) w) else w"
  let ?D = "maxNetworkTimeout h"
  let ?a = "armed ?D res options ?w1"
  have f: "fresh_handles ?w1"
    using assms(2) by (simp add: fresh_getCachedResponse)
  have s: "sent ?w1 = sent w" "nextTimer ?w1 = nextTimer w" "cache ?w1 = cache w"
    "clock ?w1 = clock w + (if cacheFirstMode h \<or> isSlowConnection h then cacheLatency E else 0)"
    by simp_all
  have eq: "smartFetch E h res options w = networkAttempt E h res options ?w1"
    using assms(1,3) by (rule smartFetch_after_miss)
  have late: "fst (smartFetch E h res options w)
              = Some (case fst (getCachedResponse E (resourceUrl res) w) of
                        None \<Rightarrow> Inl AbortError | Some c \<Rightarrow> Inr c)
          \<and> clock (snd (smartFetch E h res options w))
              = clock w + (if cacheFirstMode h \<or> isSlowConnection h then cacheLatency E else 0)
                  + maxNetworkTimeout h + cacheLatency E
          \<and> nextTimer w \<in> set (aborted (snd (smartFetch E h res options w)))
          \<and> sent (snd (smartFetch E h res options w))
              = sent w @ [(res, options\<lparr>opt_signal := Some (nextTimer w)\<rparr>)]"
    if l: "\<not> settlesBefore ?D (transport E (length (sent w)))"
  proof -
    from l have l1: "\<not> settlesBefore ?D (transport E (length (sent ?w1)))"
      by simp
    have n: "smartFetch E h res options w
        = cacheFallback E (resourceUrl res) AbortError (advance ?D ?a)"
      unfolding eq by (rule networkAttempt_deadline [OF f l1])
    have "(nextTimer w, clock ?w1 + ?D) \<in> set (timers ?a)"
      by (simp only: armed_fields s) simp
    then have "nextTimer w \<in> set (aborted (advance ?D ?a))"
      by (rule advance_fires) simp
    then have ab: "nextTimer w \<in> set (aborted (snd (getCachedResponse E (resourceUrl res) (advance ?D ?a))))"
      by (rule getCachedResponse_keeps_aborted)
    have c: "fst (getCachedResponse E (resourceUrl res) (advance ?D ?a))
        = fst (getCachedResponse E (resourceUrl res) w)"
      by (simp add: getCachedResponse_fst)
    show ?thesis
      unfolding n cacheFallback_snd cacheFallback_fst c
      using ab by (simp split: option.split)
  qed
  have hang: "notOkBefore ?D (transport E (length (sent w)))"
    if "fst (smartFetch E h res options w) = None"
    using that unfolding eq
    by (cases "transport E (length (sent w))")
      (simp_all add: networkAttempt_eq [OF f] Let_def cacheFallback_settles split: if_splits)
  from late hang show ?thesis by blast
qed

theorem deadline_unblocks_caller_witness:
  "fst (smartFetch (scripted []) newHandler (UrlString ''/data.json'') noOptions
          (withCache ''/data.json'' staleResponse emptyWorld)) = Some (Inr staleResponse)
   \<and> clock (snd (smartFetch (scripted []) newHandler (UrlString ''/data.json'') noOptions
          (withCache ''/data.json'' staleResponse emptyWorld))) = 3005
   \<and> 0 \<in> set (aborted (snd (smartFetch (scripted []) newHandler (UrlString ''/data.json'')
          noOptions (withCache ''/data.json'' staleResponse emptyWorld))))
   \<and> fst (smartFetch (scripted [Responds 100 notFound]) newHandler (UrlString ''/data.json'')
          noOptions emptyWorld) = None
   \<and> notOkBefore (maxNetworkTimeout newHandler)
        (transport (scripted [Responds 100 notFound]) (length (sent emptyWorld)))"
proof -
  let ?w = "withCache ''/data.json'' staleResponse emptyWorld"
  have e: "\<not> isExternal (resourceUrl (UrlString ''/data.json''))"
    by (simp add: isExternal_def startsWith_def)
  have f: "fresh_handles ?w"
    by (simp add: fresh_withCache fresh_emptyWorld)
  have m: "cacheFirstMode newHandler \<or> isSlowConnection newHandler \<longrightarrow>
      fst (getCachedResponse E (resourceUrl (UrlString ''/data.json'')) w) = None" for E w
    by (simp add: newHandler_def)
  have "\<not> settlesBefore (maxNetworkTimeout newHandler)
      (transport (scripted []) (length (sent ?w)))"
    by (simp add: scripted_def)
  moreover have "fst (getCachedResponse (scripted []) (resourceUrl (UrlString ''/data.json'')) ?w)
      = Some staleResponse"
    by (simp add: getCachedResponse_fst scripted_def withCache_def)
  moreover have "clock ?w = 0" "nextTimer ?w = 0" "cacheLatency (scripted []) = 5"
    "maxNetworkTimeout newHandler = 3000" "\<not> (cacheFirstMode newHandler \<or> isSlowConnection newHandler)"
    by (simp_all add: withCache_def emptyWorld_def scripted_def newHandler_def)
  moreover have "fst (smartFetch (scripted [Responds 100 notFound]) newHandler
      (UrlString ''/data.json'') noOptions emptyWorld) = None"
    by code_simp
  ultimately show ?thesis
    using deadline_unblocks_caller [OF e f m, of "scripted []" noOptions]
      deadline_unblocks_caller
        [OF e fresh_emptyWorld m, of "scripted [Responds 100 notFound]" noOptions]
    by simp
qed

text \<open>
  Claim C5 as stated fails: the pass-through test of line 123 comes before the mode is looked
  at.  In cache-first mode, a request for an absolute URL that has a cache entry is handed to
  the native fetch: no lookup is made, one request reaches the transport and the caller gets
  the network's answer, not the cached one.
\<close>

theorem cached_absolute_url_goes_to_network:
  "cacheFirstMode slowHandler
   \<and> fst (getCachedResponse (scripted [Responds 500 okResponse])
            ''https://queenrose.example/data.json''
            (withCache ''https://queenrose.example/data.json'' staleResponse emptyWorld))
       = Some staleResponse
   \<and> fst (smartFetch (scripted [Responds 500 okResponse]) slowHandler
            (UrlString ''https://queenrose.example/data.json'') noOptions
            (withCache ''https://queenrose.example/data.json'' staleResponse emptyWorld))
       = Some (Inr okResponse)
   \<and> length (sent (snd (smartFetch (scripted [Responds 500 okResponse]) slowHandler
            (UrlString ''https://queenrose.example/data.json'') noOptions
            (withCache ''https://queenrose.example/data.json'' staleResponse emptyWorld)))) = 1
   \<and> lookups (snd (smartFetch (scripted [Responds 500 okResponse]) slowHandler
            (UrlString ''https://queenrose.example/data.json'') noOptions
            (withCache ''https://queenrose.example/data.json'' staleResponse emptyWorld))) = []"
  by code_simp

text \<open>
  Claim C5, amended.  In cache-first mode (either flag set): for a request whose URL is not
  on the pass-through list of line 123, if the cache has an entry under the URL and can be
  read, the call returns that entry after one lookup, hands nothing to the transport and arms
  no timer; if the lookup misses or the cache cannot be read, the call goes on to the network
  attempt, whose request reaches the transport.  A request whose URL is on the pass-through
  list is handed to the native fetch as it is, without any lookup, whatever the cache holds.
\<close>

theorem cache_first_for_handled_requests:
  assumes "cacheFirstMode h \<or> isSlowConnection h"
  shows "(\<not> isExternal (resourceUrl res) \<and> \<not> cacheFails E \<and> cache w (resourceUrl res) = Some c \<longrightarrow>
            fst (smartFetch E h res options w) = Some (Inr c)
          \<and> sent (snd (smartFetch E h res options w)) = sent w
          \<and> nextTimer (snd (smartFetch E h res options w)) = nextTimer w
          \<and> lookups (snd (smartFetch E h res options w)) = lookups w @ [resourceUrl res])
     \<and> (\<not> isExternal (resourceUrl res) \<and> (cacheFails E \<or> cache w (resourceUrl res) = None) \<longrightarrow>
            smartFetch E h res options w
              = networkAttempt E h res options (snd (getCachedResponse E (resourceUrl res) w))
          \<and> (\<exists>more. sent (snd (smartFetch E h res options w))
                = sent w @ (res, options\<lparr>opt_signal := Some (nextTimer w)\<rparr>) # more))
     \<and> (isExternal (resourceUrl res) \<longrightarrow>
            smartFetch E h res options w = originalFetch E res options w
          \<and> sent (snd (smartFetch E h res options w)) = sent w @ [(res, options)]
          \<and> lookups (snd (smartFetch E h res options w)) = lookups w)"
proof -
  have hit: "fst (smartFetch E h res options w) = Some (Inr c)
          \<and> sent (snd (smartFetch E h res options w)) = sent w
          \<and> nextTimer (snd (smartFetch E h res options w)) = nextTimer w
          \<and> lookups (snd (smartFetch E h res options w)) = lookups w @ [resourceUrl res]"
    if "\<not> isExternal (resourceUrl res) \<and> \<not> cacheFails E \<and> cache w (resourceUrl res) = Some c"
    using that assms by (simp add: smartFetch_cache_first getCachedResponse_fst)
  have miss: "smartFetch E h res options w
              = networkAttempt E h res options (snd (getCachedResponse E (resourceUrl res) w))
          \<and> (\<exists>more. sent (snd (smartFetch E h res options w))
                = sent w @ (res, options\<lparr>opt_signal := Some (nextTimer w)\<rparr>) # more)"
    if m: "\<not> isExternal (resourceUrl res) \<and> (cacheFails E \<or> cache w (resourceUrl res) = None)"
  proof -
    from m assms have n: "smartFetch E h res options w
        = networkAttempt E h res options (snd (getCachedResponse E (resourceUrl res) w))"
      by (auto simp: smartFetch_cache_first getCachedResponse_fst)
    from sent_networkAttempt [of E h res options "snd (getCachedResponse E (resourceUrl res) w)"]
    show ?thesis unfolding n by simp
  qed
  have pass: "smartFetch E h res options w = originalFetch E res options w
          \<and> sent (snd (smartFetch E h res options w)) = sent w @ [(res, options)]
          \<and> lookups (snd (smartFetch E h res options w)) = lookups w"
    if "isExternal (resourceUrl res)"
    using that by (simp add: smartFetch_external)
  from hit miss pass show ?thesis by blast
qed

theorem cache_first_for_handled_requests_witness:
  "fst (smartFetch (scripted []) slowHandler (UrlString ''/data.json'') noOptions
          (withCache ''/data.json'' staleResponse emptyWorld)) = Some (Inr staleResponse)
   \<and> sent (snd (smartFetch (scripted []) slowHandler (UrlString ''/data.json'') noOptions
          (withCache ''/data.json'' staleResponse emptyWorld))) = []
   \<and> smartFetch (scripted [Responds 500 okResponse]) slowHandler (UrlString ''/data.json'')
          noOptions emptyWorld
       = networkAttempt (scripted [Responds 500 okResponse]) slowHandler (UrlString ''/data.json'')
          noOptions
          (snd (getCachedResponse (scripted [Responds 500 okResponse]) ''/data.json'' emptyWorld))
   \<and> smartFetch (scripted [Responds 500 okResponse]) slowHandler
          (UrlString ''https://queenrose.example/data.json'') noOptions
          (withCache ''https://queenrose.example/data.json'' staleResponse emptyWorld)
       = originalFetch (scripted [Responds 500 okResponse])
          (UrlString ''https://queenrose.example/data.json'') noOptions
          (withCache ''https://queenrose.example/data.json'' staleResponse emptyWorld)"
proof -
  have e: "\<not> isExternal (resourceUrl (UrlString ''/data.json''))"
    by (simp add: isExternal_def startsWith_def)
  have x: "isExternal (resourceUrl (UrlString ''https://queenrose.example/data.json''))"
    by code_simp
  have m: "cacheFirstMode slowHandler \<or> isSlowConnection slowHandler"
    by (simp add: slowHandler_def setSlow_def)
  have "\<not> cacheFails (scripted [])
      \<and> cache (withCache ''/data.json'' staleResponse emptyWorld) (resourceUrl (UrlString ''/data.json''))
          = Some staleResponse"
    by (simp add: scripted_def withCache_def)
  moreover have "sent (withCache ''/data.json'' staleResponse emptyWorld) = []"
    by (simp add: withCache_def emptyWorld_def)
  moreover have "cacheFails (scripted [Responds 500 okResponse])
      \<or> cache emptyWorld (resourceUrl (UrlString ''/data.json'')) = None"
    by (simp add: emptyWorld_def)
  ultimately show ?thesis
    using e x
      cache_first_for_handled_requests
        [OF m, where res = "UrlString ''/data.json''" and E = "scripted []"
           and w = "withCache ''/data.json'' staleResponse emptyWorld"
           and c = staleResponse and options = noOptions]
      cache_first_for_handled_requests
        [OF m, where res = "UrlString ''/data.json''" and E = "scripted [Responds 500 okResponse]"
           and w = emptyWorld and c = staleResponse and options = noOptions]
      cache_first_for_handled_requests
        [OF m, where res = "UrlString ''https://queenrose.example/data.json''"
           and E = "scripted [Responds 500 okResponse]"
           and w = "withCache ''https://queenrose.example/data.json'' staleResponse emptyWorld"
           and c = staleResponse and options = noOptions]
    by simp
qed

lemma originalFetch_aborted_signal:
  "opt_signal options = Some c \<Longrightarrow> c \<in> set (aborted w) \<Longrightarrow>
   fst (originalFetch E res options w) = Some (Inl AbortError)"
  by (simp add: originalFetch_def abortTime_def Let_def split: option.split prod.split)

lemma networkAttempt_rethrows:
  assumes "fst (originalFetch E res (options\<lparr>opt_signal := Some (nextTimer w)\<rparr>)
                  (snd (setTimeoutAbort (maxNetworkTimeout h) w))) = Some (Inl err)"
    and "cacheFails E \<or> cache w (resourceUrl res) = None"
  shows "fst (networkAttempt E h res options w) = Some (Inl err)"
  using assms
  by (auto simp: networkAttempt_def split_beta cacheFallback_fst getCachedResponse_fst)

text \<open>
  Claim C6 as stated fails in its second half: the handler makes no timeout error.  Its timer
  calls \<^verbatim>\<open>controller.abort()\<close> without a reason (line 147) and the \<^verbatim>\<open>catch\<close> block rethrows what
  it caught (line 176), so a deadline surfaces the platform's abort error.  The very same
  error surfaces with no deadline involved: when the first answer is a 404 after 100 ms and
  the caller's own signal, passed in the options, is already aborted, the last-resort call of
  line 180 rejects at once, at 100 ms, while the handler's own controller has not fired.
\<close>

theorem abort_error_surfaces_without_deadline:
  "fst (smartFetch (scripted [Responds 4000 okResponse]) newHandler (UrlString ''/data.json'')
          noOptions emptyWorld) = Some (Inl AbortError)
   \<and> clock (snd (smartFetch (scripted [Responds 4000 okResponse]) newHandler
          (UrlString ''/data.json'') noOptions emptyWorld)) = 3005
   \<and> fst (smartFetch (scripted [Responds 100 notFound]) newHandler (UrlString ''/data.json'')
          callerSignal callerAborted) = Some (Inl AbortError)
   \<and> clock (snd (smartFetch (scripted [Responds 100 notFound]) newHandler
          (UrlString ''/data.json'') callerSignal callerAborted)) = 100
   \<and> aborted (snd (smartFetch (scripted [Responds 100 notFound]) newHandler
          (UrlString ''/data.json'') callerSignal callerAborted)) = [0]"
  by code_simp

text \<open>
  Claim C6, amended.  For a request the interceptor handles while the cache holds no readable
  entry under its URL, whatever the timed network attempt rejects with is what the caller
  gets, unchanged: the transport's own error if the transport rejects strictly before the
  deadline, and the abort error of the aborted fetch if the transport has not settled by the
  deadline.  That abort error is not specific to the deadline: a last-resort call made with
  an already aborted caller signal surfaces the same error before any deadline.
\<close>

theorem surfaced_failure:
  assumes "\<not> isExternal (resourceUrl res)"
    and "fresh_handles w"
    and "cacheFails E \<or> cache w (resourceUrl res) = None"
  shows "(fst (originalFetch E res (options\<lparr>opt_signal := Some (nextTimer w)\<rparr>)
                 (snd (setTimeoutAbort (maxNetworkTimeout h)
                         (if cacheFirstMode h \<or> isSlowConnection h
                          then snd (getCachedResponse E (resourceUrl res) w) else w))))
            = Some (Inl err) \<longrightarrow>
          fst (smartFetch E h res options w) = Some (Inl err))
     \<and> (transport E (length (sent w)) = Rejects t e \<and> t < maxNetworkTimeout h \<longrightarrow>
            fst (smartFetch E h res options w) = Some (Inl (TransportError e)))
     \<and> (\<not> settlesBefore (maxNetworkTimeout h) (transport E (length (sent w))) \<longrightarrow>
            fst (smartFetch E h res options w) = Some (Inl AbortError))
     \<and> (notOkBefore (maxNetworkTimeout h) (transport E (length (sent w)))
          \<and> opt_signal options = Some c \<and> c \<in> set (aborted w) \<longrightarrow>
            fst (smartFetch E h res options w) = Some (Inl AbortError))"
proof -
  let ?w1 = "if cacheFirstMode h \<or> isSlowConnection h
             then snd (getCachedResponse E (resourceUrl res) w) else w"
  let ?D = "maxNetworkTimeout h"
  have miss: "fst (getCachedResponse E (resourceUrl res) w) = None"
    using assms(3) by (auto simp: getCachedResponse_fst)
  have miss1: "cacheFails E \<or> cache ?w1 (resourceUrl res) = None"
    using assms(3) by auto
  have f: "fresh_handles ?w1"
    using assms(2) by (simp add: fresh_getCachedResponse)
  have n1: "nextTimer ?w1 = nextTimer w"
    by simp
  have eq: "smartFetch E h res options w = networkAttempt E h res options ?w1"
    using assms(1) miss by (simp add: smartFetch_after_miss)
  have fb: "fst (cacheFallback E (resourceUrl res) err (advance d (armed ?D res options ?w1)))
      = Some (Inl err)" for err d
    using assms(3) by (auto simp: cacheFallback_fst getCachedResponse_fst)
  have g: "fst (smartFetch E h res options w) = Some (Inl err)"
    if "fst (originalFetch E res (options\<lparr>opt_signal := Some (nextTimer w)\<rparr>)
                 (snd (setTimeoutAbort ?D ?w1))) = Some (Inl err)"
    unfolding eq using that miss1 by (intro networkAttempt_rethrows) (simp_all only: n1)
  have a: "fst (smartFetch E h res options w) = Some (Inl (TransportError e))"
    if "transport E (length (sent w)) = Rejects t e \<and> t < ?D"
  proof -
    from that have "transport E (length (sent ?w1)) = Rejects t e" "t < ?D"
      by simp_all
    from networkAttempt_rejects [OF f this] show ?thesis
      unfolding eq by (simp only: fb)
  qed
  have b: "fst (smartFetch E h res options w) = Some (Inl AbortError)"
    if "\<not> settlesBefore ?D (transport E (length (sent w)))"
  proof -
    from that have "\<not> settlesBefore ?D (transport E (length (sent ?w1)))"
      by simp
    from networkAttempt_deadline [OF f this] show ?thesis
      unfolding eq by (simp only: fb)
  qed
  have l: "fst (smartFetch E h res options w) = Some (Inl AbortError)"
    if c: "notOkBefore ?D (transport E (length (sent w)))
          \<and> opt_signal options = Some c \<and> c \<in> set (aborted w)"
  proof -
    from c obtain t r where o0: "transport E (length (sent w)) = Responds t r" "t < ?D" "\<not> ok r"
      by (cases "transport E (length (sent w))") auto
    then have o: "transport E (length (sent ?w1)) = Responds t r" "t < ?D" "\<not> ok r"
      by simp_all
    from c have "c \<in> set (aborted ?w1)"
      by (simp add: getCachedResponse_keeps_aborted)
    then have "c \<in> set (aborted (clearTimeout (nextTimer ?w1) (advance t (armed ?D res options ?w1))))"
      by (simp add: advance_keeps_aborted)
    with c show ?thesis
      unfolding eq networkAttempt_not_ok [OF f o]
      by (intro originalFetch_aborted_signal) simp_all
  qed
  from g a b l show ?thesis by blast
qed

theorem surfaced_failure_witness:
  "fst (smartFetch (scripted [Rejects 100 ''Failed to fetch'']) newHandler
          (UrlString ''/data.json'') noOptions emptyWorld)
     = Some (Inl (TransportError ''Failed to fetch''))
   \<and> fst (smartFetch (scripted [Responds 4000 okResponse]) newHandler
          (UrlString ''/data.json'') noOptions emptyWorld)
     = Some (Inl AbortError)
   \<and> fst (smartFetch (scripted [Responds 100 notFound]) newHandler
          (UrlString ''/data.json'') callerSignal callerAborted)
     = Some (Inl AbortError)"
proof -
  have e: "\<not> isExternal (resourceUrl (UrlString ''/data.json''))"
    by (simp add: isExternal_def startsWith_def)
  have m: "cacheFails E \<or> cache emptyWorld (resourceUrl (UrlString ''/data.json'')) = None"
    for E :: env
    by (simp add: emptyWorld_def)
  have m': "cacheFails E \<or> cache callerAborted (resourceUrl (UrlString ''/data.json'')) = None"
    for E :: env
    by (simp add: callerAborted_def emptyWorld_def)
  have f': "fresh_handles callerAborted"
    by (simp add: fresh_handles_def callerAborted_def emptyWorld_def)
  have "transport (scripted [Rejects 100 ''Failed to fetch'']) (length (sent emptyWorld))
        = Rejects 100 ''Failed to fetch'' \<and> 100 < maxNetworkTimeout newHandler"
    by (simp add: scripted_def emptyWorld_def newHandler_def)
  moreover have "\<not> settlesBefore (maxNetworkTimeout newHandler)
      (transport (scripted [Responds 4000 okResponse]) (length (sent emptyWorld)))"
    by (simp add: scripted_def emptyWorld_def newHandler_def)
  moreover have "notOkBefore (maxNetworkTimeout newHandler)
        (transport (scripted [Responds 100 notFound]) (length (sent callerAborted)))
      \<and> opt_signal callerSignal = Some 0 \<and> 0 \<in> set (aborted callerAborted)"
    by (simp add: scripted_def callerAborted_def emptyWorld_def newHandler_def notFound_def
        callerSignal_def)
  ultimately show ?thesis
    using surfaced_failure
        [OF e fresh_emptyWorld m, where E = "scripted [Rejects 100 ''Failed to fetch'']"
           and t = 100 and e = "''Failed to fetch''" and h = newHandler and options = noOptions]
      surfaced_failure
        [OF e fresh_emptyWorld m, where E = "scripted [Responds 4000 okResponse]"
           and h = newHandler and options = noOptions]
      surfaced_failure
        [OF e f' m', where E = "scripted [Responds 100 notFound]"
           and h = newHandler and options = callerSignal and c = 0]
    by simp
qed

lemma startsWith_iff: "startsWith s p \<longleftrightarrow> (\<exists>b. s = p @ b)"
proof
  assume "startsWith s p"
  then have "s = p @ drop (length p) s"
    by (metis startsWith_def append_take_drop_id)
  then show "\<exists>b. s = p @ b" ..
next
  assume "\<exists>b. s = p @ b"
  then show "startsWith s p"
    by (auto simp: startsWith_def)
qed

lemma js_includes_iff: "js_includes s p \<longleftrightarrow> (\<exists>a b. s = a @ p @ b)"
proof (induction s)
  case Nil
  show ?case by auto
next
  case (Cons c s)
  show ?case
  proof
    assume "js_includes (c # s) p"
    then consider "startsWith (c # s) p" | "js_includes s p" by auto
    then show "\<exists>a b. c # s = a @ p @ b"
    proof cases
      case 1
      then obtain b where "c # s = p @ b" by (auto simp: startsWith_iff)
      then have "c # s = [] @ p @ b" by simp
      then show ?thesis by blast
    next
      case 2
      with Cons.IH obtain a b where "s = a @ p @ b" by auto
      then have "c # s = (c # a) @ p @ b" by simp
      then show ?thesis by blast
    qed
  next
    assume "\<exists>a b. c # s = a @ p @ b"
    then obtain a b where ab: "c # s = a @ p @ b" by auto
    show "js_includes (c # s) p"
    proof (cases a)
      case Nil
      with ab have "startsWith (c # s) p" by (auto simp: startsWith_iff)
      then show ?thesis by simp
    next
      case (Cons x a')
      with ab have "s = a' @ p @ b" by simp
      with Cons.IH have "js_includes s p" by blast
      then show ?thesis by simp
    qed
  qed
qed

text \<open>
  Claim C10.  The test of line 123 holds exactly of the URLs that contain
  \<open>open-meteo.com\<close>, or start with \<open>http\<close> and do not contain \<open>localhost\<close>; the origin plays
  no part in it.  For such a URL the patched fetch is the native fetch on the same resource
  and the same options: one request reaches the transport, the cache is not consulted and no
  timer is armed.  For every other URL the interceptor either consults the cache or arms its
  timer.
\<close>

theorem external_requests_pass_through:
  "(isExternal url \<longleftrightarrow>
      (\<exists>a b. url = a @ ''open-meteo.com'' @ b)
      \<or> ((\<exists>b. url = ''http'' @ b) \<and> \<not> (\<exists>a b. url = a @ ''localhost'' @ b)))
   \<and> (isExternal (resourceUrl res) \<longrightarrow>
        smartFetch E h res options w = originalFetch E res options w
      \<and> sent (snd (smartFetch E h res options w)) = sent w @ [(res, options)]
      \<and> lookups (snd (smartFetch E h res options w)) = lookups w
      \<and> nextTimer (snd (smartFetch E h res options w)) = nextTimer w)
   \<and> (\<not> isExternal (resourceUrl res) \<longrightarrow>
        lookups (snd (smartFetch E h res options w)) \<noteq> lookups w
      \<or> nextTimer (snd (smartFetch E h res options w)) = Suc (nextTimer w))"
proof -
  have set_eq: "isExternal url \<longleftrightarrow>
      (\<exists>a b. url = a @ ''open-meteo.com'' @ b)
      \<or> ((\<exists>b. url = ''http'' @ b) \<and> \<not> (\<exists>a b. url = a @ ''localhost'' @ b))"
    unfolding isExternal_def js_includes_iff startsWith_iff ..
  have pass: "smartFetch E h res options w = originalFetch E res options w
      \<and> sent (snd (smartFetch E h res options w)) = sent w @ [(res, options)]
      \<and> lookups (snd (smartFetch E h res options w)) = lookups w
      \<and> nextTimer (snd (smartFetch E h res options w)) = nextTimer w"
    if "isExternal (resourceUrl res)"
    using that by (simp add: smartFetch_external)
  have policy: "lookups (snd (smartFetch E h res options w)) \<noteq> lookups w
      \<or> nextTimer (snd (smartFetch E h res options w)) = Suc (nextTimer w)"
    if ne: "\<not> isExternal (resourceUrl res)"
  proof (cases "cacheFirstMode h \<or> isSlowConnection h")
    case False
    with ne show ?thesis
      by (simp add: smartFetch_network_first nextTimer_networkAttempt)
  next
    case True
    show ?thesis
    proof (cases "fst (getCachedResponse E (resourceUrl res) w)")
      case None
      with ne True show ?thesis
        by (simp add: smartFetch_cache_first nextTimer_networkAttempt)
    next
      case (Some c)
      with ne True show ?thesis
        by (simp add: smartFetch_cache_first)
    qed
  qed
  from set_eq pass policy show ?thesis by blast
qed

theorem external_requests_pass_through_witness:
  "isExternal ''https://queenrose.example/data.json''
   \<and> smartFetch (scripted [Responds 500 okResponse]) slowHandler
        (UrlString ''https://queenrose.example/data.json'') noOptions
        (withCache ''https://queenrose.example/data.json'' staleResponse emptyWorld)
     = originalFetch (scripted [Responds 500 okResponse])
        (UrlString ''https://queenrose.example/data.json'') noOptions
        (withCache ''https://queenrose.example/data.json'' staleResponse emptyWorld)
   \<and> lookups (snd (smartFetch (scripted [Responds 500 okResponse]) slowHandler
        (UrlString ''https://queenrose.example/data.json'') noOptions
        (withCache ''https://queenrose.example/data.json'' staleResponse emptyWorld))) = []
   \<and> nextTimer (snd (smartFetch (scripted [Responds 500 okResponse]) newHandler
        (UrlString ''/data.json'') noOptions emptyWorld)) = 1"
proof -
  have e: "isExternal ''https://queenrose.example/data.json''"
    by code_simp
  have l: "lookups (withCache ''https://queenrose.example/data.json'' staleResponse emptyWorld) = []"
    by (simp add: withCache_def emptyWorld_def)
  have n: "\<not> isExternal (resourceUrl (UrlString ''/data.json''))"
    by (simp add: isExternal_def startsWith_def)
  have k: "lookups (snd (smartFetch (scripted [Responds 500 okResponse]) newHandler
        (UrlString ''/data.json'') noOptions emptyWorld)) = lookups emptyWorld"
      "nextTimer emptyWorld = 0"
    by code_simp+
  from e l n k show ?thesis
    using external_requests_pass_through
        [of "''https://queenrose.example/data.json''"
            "UrlString ''https://queenrose.example/data.json''"
            "scripted [Responds 500 okResponse]" slowHandler noOptions
            "withCache ''https://queenrose.example/data.json'' staleResponse emptyWorld"]
      external_requests_pass_through
        [of "''/data.json''" "UrlString ''/data.json''"
            "scripted [Responds 500 okResponse]" newHandler noOptions emptyWorld]
    by simp
qed

section \<open>The quality check\<close>

lemma probeOptions_signal:
  "probeOptions k = \<lparr>opt_signal = None, opt_cache = Some ''no-cache''\<rparr>\<lparr>opt_signal := Some k\<rparr>"
  by (simp add: probeOptions_def)

lemma checkConnectionQuality_offline:
  "\<not> onLine E \<Longrightarrow> checkConnectionQuality fetch E h w = (setSlow h, w)"
  by (simp add: checkConnectionQuality_def)

lemma checkConnectionQuality_online:
  "onLine E \<Longrightarrow>
   fst (checkConnectionQuality fetch E h w)
     = (case fst (fetch (UrlString ''./manifest.json'') (probeOptions (nextTimer w))
                    (snd (setTimeoutAbort (connectionCheckTimeout h) w))) of
          None \<Rightarrow> h
        | Some (Inl e) \<Rightarrow> setSlow h
        | Some (Inr resp) \<Rightarrow>
            if ok resp
               \<and> clock (snd (fetch (UrlString ''./manifest.json'') (probeOptions (nextTimer w))
                               (snd (setTimeoutAbort (connectionCheckTimeout h) w)))) - clock w
                   < 1000
            then setGood h else setSlow h)"
  by (simp add: checkConnectionQuality_def Let_def split_beta split: option.split sum.split)

lemma checkConnectionQuality_native:
  assumes "onLine E" "fresh_handles w"
  shows "fst (checkConnectionQuality (originalFetch E) E h w)
       = (case transport E (length (sent w)) of
            Responds t r \<Rightarrow>
              if t < connectionCheckTimeout h \<and> ok r \<and> t < 1000 then setGood h else setSlow h
          | Rejects t e \<Rightarrow> setSlow h
          | Never \<Rightarrow> setSlow h)"
  unfolding checkConnectionQuality_online [OF assms(1)] probeOptions_signal
    timed_fetch [OF assms(2)]
  by (cases "transport E (length (sent w))") simp_all

lemma checkConnectionQuality_native_sent:
  assumes "onLine E"
  shows "sent (snd (checkConnectionQuality (originalFetch E) E h w))
       = sent w @ [(UrlString ''./manifest.json'', probeOptions (nextTimer w))]"
  using assms
  by (simp add: checkConnectionQuality_def Let_def split_beta split: option.split sum.split)

text \<open>
  The first check (line 21) runs on the native fetch.  There the flags follow the network:
  both are cleared exactly when the transport answers ok before the 1500 ms timeout and under
  1000 ms, and both are set otherwise (late or missing answer, transport error, response that
  is not ok); one probe request is sent.
\<close>

lemma first_check_follows_network:
  assumes "onLine E" "fresh_handles w"
  shows "isSlowConnection (fst (checkConnectionQuality (windowFetch False E h) E h w))
       = (case transport E (length (sent w)) of
            Responds t r \<Rightarrow> \<not> (t < connectionCheckTimeout h \<and> ok r \<and> t < 1000)
          | Rejects t e \<Rightarrow> True
          | Never \<Rightarrow> True)"
    and "cacheFirstMode (fst (checkConnectionQuality (windowFetch False E h) E h w))
       = isSlowConnection (fst (checkConnectionQuality (windowFetch False E h) E h w))"
    and "sent (snd (checkConnectionQuality (windowFetch False E h) E h w))
       = sent w @ [(UrlString ''./manifest.json'', probeOptions (nextTimer w))]"
proof -
  have n: "windowFetch False E h = originalFetch E"
    by (simp add: windowFetch_def)
  show "isSlowConnection (fst (checkConnectionQuality (windowFetch False E h) E h w))
       = (case transport E (length (sent w)) of
            Responds t r \<Rightarrow> \<not> (t < connectionCheckTimeout h \<and> ok r \<and> t < 1000)
          | Rejects t e \<Rightarrow> True
          | Never \<Rightarrow> True)"
    unfolding n checkConnectionQuality_native [OF assms]
    by (cases "transport E (length (sent w))") (simp_all add: setSlow_def setGood_def)
  show "cacheFirstMode (fst (checkConnectionQuality (windowFetch False E h) E h w))
       = isSlowConnection (fst (checkConnectionQuality (windowFetch False E h) E h w))"
    unfolding n checkConnectionQuality_native [OF assms]
    by (cases "transport E (length (sent w))") (simp_all add: setSlow_def setGood_def)
  show "sent (snd (checkConnectionQuality (windowFetch False E h) E h w))
       = sent w @ [(UrlString ''./manifest.json'', probeOptions (nextTimer w))]"
    unfolding n by (rule checkConnectionQuality_native_sent [OF assms(1)])
qed

text \<open>
  Claim C7 does not hold of the checks that run after \<^verbatim>\<open>setupSmartFetch\<close> (the 30-second
  interval of line 30, the \<^verbatim>\<open>online\<close> event of line 39): their \<^verbatim>\<open>fetch\<close> is the handler's own
  patched fetch, and \<open>./manifest.json\<close> is not on its pass-through list.  With the manifest in
  the cache:
  \<^item> from cache-first mode, on a network that never answers, the check is served by the
    cache after one lookup, no request reaches the transport, and both flags are cleared;
  \<^item> from network-first mode, a transport error after 50 ms is caught by the patched fetch,
    which answers from the cache, and both flags are cleared.
  On the native fetch, as in the first check, the same two platforms leave both flags set.
\<close>

theorem patched_probe_classifies_good_without_network:
  "isSlowConnection
     (fst (checkConnectionQuality (windowFetch True (scripted []) slowHandler) (scripted [])
             slowHandler (withCache ''./manifest.json'' staleResponse emptyWorld))) = False
   \<and> cacheFirstMode
     (fst (checkConnectionQuality (windowFetch True (scripted []) slowHandler) (scripted [])
             slowHandler (withCache ''./manifest.json'' staleResponse emptyWorld))) = False
   \<and> sent
     (snd (checkConnectionQuality (windowFetch True (scripted []) slowHandler) (scripted [])
             slowHandler (withCache ''./manifest.json'' staleResponse emptyWorld))) = []
   \<and> isSlowConnection
     (fst (checkConnectionQuality (windowFetch False (scripted []) slowHandler) (scripted [])
             slowHandler (withCache ''./manifest.json'' staleResponse emptyWorld))) = True
   \<and> isSlowConnection
     (fst (checkConnectionQuality
             (windowFetch True (scripted [Rejects 50 ''Failed to fetch'']) newHandler)
             (scripted [Rejects 50 ''Failed to fetch'']) newHandler
             (withCache ''./manifest.json'' staleResponse emptyWorld))) = False
   \<and> cacheFirstMode
     (fst (checkConnectionQuality
             (windowFetch True (scripted [Rejects 50 ''Failed to fetch'']) newHandler)
             (scripted [Rejects 50 ''Failed to fetch'']) newHandler
             (withCache ''./manifest.json'' staleResponse emptyWorld))) = False
   \<and> isSlowConnection
     (fst (checkConnectionQuality
             (windowFetch False (scripted [Rejects 50 ''Failed to fetch'']) newHandler)
             (scripted [Rejects 50 ''Failed to fetch'']) newHandler
             (withCache ''./manifest.json'' staleResponse emptyWorld))) = True"
  by code_simp

section \<open>The two flags of the handler\<close>

lemma setSlow_flags: "isSlowConnection (setSlow h) = cacheFirstMode (setSlow h)"
  by (simp add: setSlow_def)

lemma setGood_flags: "isSlowConnection (setGood h) = cacheFirstMode (setGood h)"
  by (simp add: setGood_def)

lemma checkConnectionType_flags:
  "isSlowConnection h = cacheFirstMode h \<Longrightarrow>
   isSlowConnection (checkConnectionType E h) = cacheFirstMode (checkConnectionType E h)"
  by (simp add: checkConnectionType_def setSlow_flags setGood_flags split: option.split)

lemma checkConnectionQuality_flags:
  "isSlowConnection h = cacheFirstMode h \<Longrightarrow>
   isSlowConnection (fst (checkConnectionQuality f E h w))
     = cacheFirstMode (fst (checkConnectionQuality f E h w))"
  by (simp add: checkConnectionQuality_def Let_def setSlow_flags setGood_flags
      split: prod.split option.split sum.split)

lemma newHandler_flags: "isSlowConnection newHandler = cacheFirstMode newHandler"
  by (simp add: newHandler_def)

lemma construct_flags: "isSlowConnection (construct E) = cacheFirstMode (construct E)"
  by (simp add: construct_def checkConnectionType_flags newHandler_flags setSlow_flags)

lemma handleEvent_flags:
  "isSlowConnection h = cacheFirstMode h \<Longrightarrow>
   isSlowConnection (handleEvent e h) = cacheFirstMode (handleEvent e h)"
proof (cases e)
  case (fields E w ev)
  assume inv: "isSlowConnection h = cacheFirstMode h"
  show ?thesis
  proof (cases ev)
    case InitialProbeSettles
    with fields inv show ?thesis by (simp add: checkConnectionQuality_flags)
  next
    case OnlineEvent
    with fields show ?thesis by (simp add: checkConnectionQuality_flags setGood_flags)
  next
    case OfflineEvent
    with fields show ?thesis by (simp add: setSlow_flags)
  next
    case ConnectionChange
    with fields inv show ?thesis by (simp add: checkConnectionType_flags)
  next
    case QualityTick
    with fields inv show ?thesis by (simp add: checkConnectionQuality_flags)
  next
    case EnableCacheFirst
    with fields show ?thesis by (simp add: enableCacheFirstMode_def)
  next
    case DisableCacheFirst
    with fields show ?thesis by (simp add: disableCacheFirstMode_def)
  qed
qed

lemma runEvents_flags:
  "isSlowConnection h = cacheFirstMode h \<Longrightarrow>
   isSlowConnection (runEvents es h) = cacheFirstMode (runEvents es h)"
  by (induction es arbitrary: h) (simp_all add: handleEvent_flags)

text \<open>
  Claim C9.  When the constructor returns and after any sequence of events that follows (the
  settlement of the first probe, online, offline and connection-change events, periodic
  quality checks, manual enable and disable), \<open>isSlowConnection\<close> and \<open>cacheFirstMode\<close> are
  equal, so every snapshot of \<open>getNetworkStatus\<close> carries two equal flags.  Each step is one
  handler run to completion; the platform, the world and the fetch outcome of each step are
  arbitrary.
\<close>

theorem flags_always_agree:
  "isSlowConnection (runEvents es (construct E)) = cacheFirstMode (runEvents es (construct E))
   \<and> ns_isSlowConnection (getNetworkStatus E' (runEvents es (construct E)))
       = ns_cacheFirstMode (getNetworkStatus E' (runEvents es (construct E)))"
  by (simp add: getNetworkStatus_def runEvents_flags construct_flags)

theorem flags_always_agree_witness:
  "isSlowConnection
     (runEvents [(scripted [], emptyWorld, OfflineEvent), (scripted [], emptyWorld, QualityTick)]
        (construct (scripted [])))
   = cacheFirstMode
     (runEvents [(scripted [], emptyWorld, OfflineEvent), (scripted [], emptyWorld, QualityTick)]
        (construct (scripted [])))"
  using flags_always_agree
    [of "[(scripted [], emptyWorld, OfflineEvent), (scripted [], emptyWorld, QualityTick)]"
        "scripted []" "scripted []"]
  by simp

section \<open>Notifications of the status indicator\<close>












end
